theory Spec2Isabelle
  imports Main "HOL-Library.Word"
begin

section \<open>spipy: the SPI object of \<^verbatim>\<open>spi.c\<close>\<close>

text \<open>
  A shallow embedding of the three methods of the \<^verbatim>\<open>SPI\<close> type (\<^verbatim>\<open>close\<close>,
  \<^verbatim>\<open>transfer\<close>, \<^verbatim>\<open>open\<close>) of \<^verbatim>\<open>src/spi.c\<close>.

  \<^item> The C struct is a record; its C integers are read as mathematical integers
    (\<open>fd\<close>) or kept as words (\<open>mode\<close>, \<open>bpw\<close>, \<open>msh\<close>).
  \<^item> A method returns an \<open>outcome\<close>: the Python value, the Python exception that was
    set when it returned \<^verbatim>\<open>NULL\<close>, or \<open>BufferOverrun\<close> when the C code indexes one of
    its fixed arrays outside its bounds (undefined behaviour in C; the model stops at
    the first such access).
  \<^item> The operating system is a record of answers, one function per system call the
    file makes, together with the bytes that the two stack arrays of
    \<^verbatim>\<open>SPI_transfer\<close> hold before anything is stored in them. Every method also
    returns the list of system calls and console writes it made, in order.
  \<^item> The integer types are those of the 32-bit targets of the module: \<^verbatim>\<open>int\<close>,
    \<^verbatim>\<open>long\<close> and \<^verbatim>\<open>Py_ssize_t\<close> are 32 bits wide, so \<^verbatim>\<open>PySequence_Size\<close>
    is stored in \<^verbatim>\<open>tx_length\<close> without narrowing.
\<close>

subsection \<open>Constants and data\<close>

definition MAXPATH :: nat where
  "MAXPATH = 16"

definition MAX_TRANSFER_LENGTH :: int where
  "MAX_TRANSFER_LENGTH = 256"

type_synonym byte = "8 word"
type_synonym c_int = "32 word"
type_synonym errno = nat

text \<open>The struct \<^verbatim>\<open>SPI\<close> (without the Python object header).\<close>

record SPI =
  fd :: int
  mode :: "8 word"
  bpw :: "8 word"
  msh :: "32 word"

text \<open>
  The exception classes: those of Python that the file names or that a caller may
  expect, and \<^verbatim>\<open>SpiError\<close>, the module's own \<^verbatim>\<open>spi.error\<close>. An exception carries
  either a message (\<^verbatim>\<open>PyErr_SetString\<close>) or the value of \<^verbatim>\<open>errno\<close>
  (\<^verbatim>\<open>PyErr_SetFromErrno\<close>).
\<close>

datatype exc_class =
  PyExc_IOError | PyExc_AttributeError | PyExc_OverflowError | PyExc_ValueError | SpiError

datatype exc_arg = Msg string | Errno errno

datatype 'a outcome = Returns 'a | Raises exc_class exc_arg | BufferOverrun

text \<open>
  The argument of \<^verbatim>\<open>ioctl(fd, SPI_IOC_MESSAGE(1), &transfer)\<close>: the struct
  \<^verbatim>\<open>spi_ioc_transfer\<close> as the code fills it. The two addresses are replaced by what
  they give the driver: \<open>tx_bytes\<close> are the \<open>len\<close> bytes found at \<^verbatim>\<open>.tx_buf\<close>
  (the receive address only receives, see \<open>store_rx\<close>).
\<close>

record spi_ioc_transfer =
  tx_bytes :: "byte list"
  len :: "32 word"
  delay_usecs :: "16 word"
  speed_hz :: "32 word"
  bits_per_word :: "8 word"

datatype event =
    Sys_close int
  | Sys_open string
  | Ioctl_rd_mode int
  | Ioctl_rd_bits_per_word int
  | Ioctl_rd_max_speed_hz int
  | Ioctl_message int spi_ioc_transfer
  | Printf string
  | Perror

text \<open>
  The environment of a call. \<open>sys_close\<close> answers \<^verbatim>\<open>close(fd)\<close>: \<open>None\<close> is the
  return value 0, \<open>Some e\<close> is -1 with \<^verbatim>\<open>errno = e\<close>. \<open>sys_open\<close> answers
  \<^verbatim>\<open>open(path, O_RDWR, 0)\<close>: \<open>Inr n\<close> is the new descriptor \<open>n\<close>, \<open>Inl e\<close> is -1
  with \<^verbatim>\<open>errno = e\<close>. The three read requests answer with the value stored through
  the pointer, or with -1. \<open>spi_message\<close> answers the message request with the return
  value of \<^verbatim>\<open>ioctl\<close> and the bytes the driver copied to the receive address.
  \<open>stack_tx\<close> and \<open>stack_rx\<close> are the contents of the uninitialised arrays
  \<^verbatim>\<open>tx_buf\<close> and \<^verbatim>\<open>rx_buf\<close> on entry.
\<close>

record env =
  sys_close :: "int \<Rightarrow> errno option"
  sys_open :: "string \<Rightarrow> errno + nat"
  rd_mode :: "int \<Rightarrow> errno + 8 word"
  rd_bits_per_word :: "int \<Rightarrow> errno + 8 word"
  rd_max_speed_hz :: "int \<Rightarrow> errno + 32 word"
  spi_message :: "int \<Rightarrow> spi_ioc_transfer \<Rightarrow> int \<times> byte list"
  stack_tx :: "nat \<Rightarrow> byte"
  stack_rx :: "nat \<Rightarrow> byte"

subsection \<open>\<^verbatim>\<open>SPI_new\<close> and \<^verbatim>\<open>SPI_close\<close>\<close>

definition SPI_new :: SPI where
  "SPI_new = \<lparr>fd = -1, mode = 0, bpw = 0, msh = 0\<rparr>"

text \<open>
  \<^verbatim>\<open>SPI_close\<close>: \<^verbatim>\<open>close\<close> is called only when \<open>fd\<close> is not -1 (the \<^verbatim>\<open>&&\<close> is
  short-circuit); when it fails the function returns at once, before the four
  assignments.
\<close>

definition SPI_close :: "env \<Rightarrow> SPI \<Rightarrow> unit outcome \<times> SPI \<times> event list" where
  "SPI_close e self =
     (if fd self \<noteq> -1 then
        (case sys_close e (fd self) of
           Some err \<Rightarrow> (Raises PyExc_IOError (Errno err), self, [Sys_close (fd self)])
         | None \<Rightarrow>
             (Returns (), self\<lparr>fd := -1, mode := 0, bpw := 0, msh := 0\<rparr>,
              [Sys_close (fd self)]))
      else (Returns (), self\<lparr>fd := -1, mode := 0, bpw := 0, msh := 0\<rparr>, []))"

subsection \<open>\<^verbatim>\<open>SPI_transfer\<close>\<close>

text \<open>
  \<^verbatim>\<open>PyInt_AsLong\<close> on a Python integer: the value when it fits a \<^verbatim>\<open>long\<close>,
  otherwise -1 (with an exception set, which \<^verbatim>\<open>SPI_transfer\<close> then replaces).
\<close>

definition PyInt_AsLong :: "int \<Rightarrow> int" where
  "PyInt_AsLong v = (if - (2 ^ 31) \<le> v \<and> v < 2 ^ 31 then v else - 1)"

text \<open>An index into \<^verbatim>\<open>tx_buf\<close> or \<^verbatim>\<open>rx_buf\<close> is inside the array.\<close>

definition in_buffer :: "int \<Rightarrow> bool" where
  "in_buffer i = (0 \<le> i \<and> i < MAX_TRANSFER_LENGTH)"

text \<open>
  Lines 124 to 133: the loop that checks each item of the sequence and stores it in
  \<^verbatim>\<open>tx_buf\<close>. The range check comes before the store.
\<close>

function tx_loop :: "int list \<Rightarrow> int \<Rightarrow> int \<Rightarrow> (nat \<Rightarrow> byte) \<Rightarrow> (nat \<Rightarrow> byte) outcome" where
  "tx_loop seq tx_length i tx_buf =
     (if i < tx_length then
        (let tx_char = PyInt_AsLong (seq ! nat i) in
         if tx_char > 255 \<or> tx_char < 0 then
           Raises PyExc_AttributeError (Msg ''Transmit data should be valid 8-bit data'')
         else if in_buffer i then
           tx_loop seq tx_length (i + 1) (tx_buf(nat i := word_of_int tx_char))
         else BufferOverrun)
      else Returns tx_buf)"
  by pat_completeness auto
termination
  by (relation "measure (\<lambda>(seq, tx_length, i, tx_buf). nat (tx_length - i))") auto

text \<open>Lines 141 to 148.\<close>

definition transfer_length_of :: "int \<Rightarrow> int \<Rightarrow> int" where
  "transfer_length_of tx_length rx_length =
     (if tx_length > rx_length then tx_length else rx_length)"

text \<open>Lines 150 to 155: the loop that stores zeros after the data.\<close>

function pad_loop :: "int \<Rightarrow> int \<Rightarrow> (nat \<Rightarrow> byte) \<Rightarrow> (nat \<Rightarrow> byte) outcome" where
  "pad_loop transfer_length i tx_buf =
     (if i < transfer_length then
        (if in_buffer i then pad_loop transfer_length (i + 1) (tx_buf(nat i := 0))
         else BufferOverrun)
      else Returns tx_buf)"
  by pat_completeness auto
termination
  by (relation "measure (\<lambda>(transfer_length, i, tx_buf). nat (transfer_length - i))") auto

text \<open>
  What the driver leaves in \<^verbatim>\<open>rx_buf\<close>: the bytes it copied, from index 0, over
  what the array held.
\<close>

definition store_rx :: "byte list \<Rightarrow> (nat \<Rightarrow> byte) \<Rightarrow> (nat \<Rightarrow> byte)" where
  "store_rx written rx_buf = (\<lambda>i. if i < length written then written ! i else rx_buf i)"

text \<open>
  Lines 204 to 208: \<^verbatim>\<open>PyTuple_New(transfer_length)\<close> and the loop that sets item
  \<open>i\<close> to \<^verbatim>\<open>rx_buf[i]\<close>; the tuple is the list of the items set so far.
\<close>

function rx_loop :: "int \<Rightarrow> int \<Rightarrow> (nat \<Rightarrow> byte) \<Rightarrow> int list \<Rightarrow> int list outcome" where
  "rx_loop transfer_length i rx_buf rx_tuple =
     (if i < transfer_length then
        (if in_buffer i then
           rx_loop transfer_length (i + 1) rx_buf (rx_tuple @ [uint (rx_buf (nat i))])
         else BufferOverrun)
      else Returns rx_tuple)"
  by pat_completeness auto
termination
  by (relation "measure (\<lambda>(transfer_length, i, rx_buf, rx_tuple). nat (transfer_length - i))") auto

text \<open>
  Lines 116 and 119: \<^verbatim>\<open>rx_length\<close> is initialised to 0 and the format \<^verbatim>\<open>"O|i"\<close>
  stores the optional second argument in it when there is one.
\<close>

definition rx_length_of :: "c_int option \<Rightarrow> int" where
  "rx_length_of rx_arg = (case rx_arg of None \<Rightarrow> 0 | Some r \<Rightarrow> sint r)"

text \<open>
  \<^verbatim>\<open>SPI_transfer\<close>. \<open>obj\<close> is the sequence of Python integers, \<open>rx_arg\<close> the optional
  second argument. \<open>self\<close> is only read: the function returns the Python result and
  the system calls and console writes it made.
\<close>

definition SPI_transfer ::
  "env \<Rightarrow> SPI \<Rightarrow> int list \<Rightarrow> c_int option \<Rightarrow> int list outcome \<times> event list" where
  "SPI_transfer e self obj rx_arg =
     (let rx_length = rx_length_of rx_arg;
          tx_length = int (length obj)
      in case tx_loop obj tx_length 0 (stack_tx e) of
           Raises c a \<Rightarrow> (Raises c a, [])
         | BufferOverrun \<Rightarrow> (BufferOverrun, [])
         | Returns tx_buf \<Rightarrow>
             (let transfer_length = transfer_length_of tx_length rx_length
              in case pad_loop transfer_length tx_length tx_buf of
                   Raises c a \<Rightarrow> (Raises c a, [])
                 | BufferOverrun \<Rightarrow> (BufferOverrun, [])
                 | Returns tx_buf' \<Rightarrow>
                     (let transfer =
                            \<lparr>tx_bytes = map tx_buf' [0..<nat transfer_length],
                             len = word_of_int transfer_length,
                             delay_usecs = 5, speed_hz = 1000000, bits_per_word = 8\<rparr>;
                          (ret, written) = spi_message e (fd self) transfer;
                          rx_buf = store_rx (take (nat transfer_length) written) (stack_rx e);
                          log = Ioctl_message (fd self) transfer #
                                (if ret < 1
                                 then [Printf ''ERROR: Can't send spi message'', Perror]
                                 else [])
                      in (rx_loop transfer_length 0 rx_buf [], log))))"

subsection \<open>\<^verbatim>\<open>SPI_open\<close>\<close>

text \<open>The conversion \<^verbatim>\<open>%d\<close> of \<^verbatim>\<open>snprintf\<close>.\<close>

definition digit :: "nat \<Rightarrow> char" where
  "digit d = ''0123456789'' ! d"

fun show_nat :: "nat \<Rightarrow> string" where
  "show_nat n = (if n < 10 then [digit n] else show_nat (n div 10) @ [digit (n mod 10)])"

definition show_int :: "int \<Rightarrow> string" where
  "show_int v = (if v < 0 then CHR ''-'' # show_nat (nat (- v)) else show_nat (nat v))"

text \<open>
  The string that \<^verbatim>\<open>snprintf(path, MAXPATH, "/dev/spidev%d.%d", bus, device)\<close> formats;
  its length is the value \<^verbatim>\<open>snprintf\<close> returns.
\<close>

definition device_path :: "c_int \<Rightarrow> c_int \<Rightarrow> string" where
  "device_path bus device =
     ''/dev/spidev'' @ show_int (sint bus) @ ''.'' @ show_int (sint device)"

text \<open>
  \<^verbatim>\<open>SPI_open\<close>, with the two arguments as the format \<^verbatim>\<open>"ii"\<close> delivers them. The
  result of \<^verbatim>\<open>open\<close> is assigned to \<open>fd\<close> before it is tested.
\<close>

definition SPI_open :: "env \<Rightarrow> SPI \<Rightarrow> c_int \<Rightarrow> c_int \<Rightarrow> unit outcome \<times> SPI \<times> event list" where
  "SPI_open e self bus device =
     (let path = device_path bus device in
      if length path \<ge> MAXPATH then
        (Raises PyExc_OverflowError (Msg ''Bus and/or device number is invalid.''), self, [])
      else
        (case sys_open e path of
           Inl err \<Rightarrow>
             (Raises SpiError (Msg (''can't open device: '' @ path)), self\<lparr>fd := -1\<rparr>,
              [Sys_open path])
         | Inr n \<Rightarrow>
             (let self1 = self\<lparr>fd := int n\<rparr> in
              case rd_mode e (fd self1) of
                Inl err \<Rightarrow>
                  (Raises SpiError (Msg ''can't get spi mode''), self1,
                   [Sys_open path, Ioctl_rd_mode (fd self1)])
              | Inr tmp8 \<Rightarrow>
                  (let self2 = self1\<lparr>mode := tmp8\<rparr> in
                   case rd_bits_per_word e (fd self2) of
                     Inl err \<Rightarrow>
                       (Raises SpiError (Msg ''can't get bits per word''), self2,
                        [Sys_open path, Ioctl_rd_mode (fd self2),
                         Ioctl_rd_bits_per_word (fd self2)])
                   | Inr tmp8' \<Rightarrow>
                       (let self3 = self2\<lparr>bpw := tmp8'\<rparr> in
                        case rd_max_speed_hz e (fd self3) of
                          Inl err \<Rightarrow>
                            (Raises SpiError (Msg ''can't get max speed hz''), self3,
                             [Sys_open path, Ioctl_rd_mode (fd self3),
                              Ioctl_rd_bits_per_word (fd self3),
                              Ioctl_rd_max_speed_hz (fd self3)])
                        | Inr tmp32 \<Rightarrow>
                            (Returns (), self3\<lparr>msh := tmp32\<rparr>,
                             [Sys_open path, Ioctl_rd_mode (fd self3),
                              Ioctl_rd_bits_per_word (fd self3),
                              Ioctl_rd_max_speed_hz (fd self3)]))))))"

subsection \<open>Two environments and two objects\<close>

text \<open>
  \<open>loopback\<close>: the node \<^verbatim>\<open>/dev/spidev0.0\<close> exists and opens as descriptor 3; the
  device returns every byte it is sent. Any other path is missing (\<^verbatim>\<open>ENOENT\<close>, 2)
  and any other descriptor is rejected (\<^verbatim>\<open>EBADF\<close>, 9).
\<close>

definition loopback :: env where
  "loopback =
     \<lparr>sys_close = (\<lambda>d. if d = 3 then None else Some 9),
      sys_open = (\<lambda>p. if p = ''/dev/spidev0.0'' then Inr 3 else Inl 2),
      rd_mode = (\<lambda>d. if d = 3 then Inr 0 else Inl 9),
      rd_bits_per_word = (\<lambda>d. if d = 3 then Inr 8 else Inl 9),
      rd_max_speed_hz = (\<lambda>d. if d = 3 then Inr 500000 else Inl 9),
      spi_message = (\<lambda>d t. if d = 3 then (int (length (tx_bytes t)), tx_bytes t) else (- 1, [])),
      stack_tx = (\<lambda>i. 170),
      stack_rx = (\<lambda>i. 85)\<rparr>"

text \<open>
  \<open>stuck\<close>: as \<open>loopback\<close>, but \<^verbatim>\<open>close\<close> fails on every descriptor with
  \<^verbatim>\<open>EIO\<close> (5).
\<close>

definition stuck :: env where
  "stuck = loopback\<lparr>sys_close := (\<lambda>d. Some 5)\<rparr>"

definition opened :: SPI where
  "opened = \<lparr>fd = 3, mode = 0, bpw = 8, msh = 500000\<rparr>"

section \<open>Properties\<close>

subsection \<open>The loops\<close>

declare tx_loop.simps [simp del] pad_loop.simps [simp del] rx_loop.simps [simp del]
  show_nat.simps [simp del]

lemma PyInt_AsLong_byte: "0 \<le> v \<Longrightarrow> v \<le> 255 \<Longrightarrow> PyInt_AsLong v = v"
  by (simp add: PyInt_AsLong_def)

lemma PyInt_AsLong_bad: "(PyInt_AsLong v > 255 \<or> PyInt_AsLong v < 0) = (v > 255 \<or> v < 0)"
  by (auto simp: PyInt_AsLong_def)

lemma pad_loop_ok:
  "n \<le> MAX_TRANSFER_LENGTH \<Longrightarrow> 0 \<le> i \<Longrightarrow>
   pad_loop n i buf = Returns (\<lambda>j. if nat i \<le> j \<and> int j < n then 0 else buf j)"
proof (induction n i buf rule: pad_loop.induct)
  case (1 n i buf)
  show ?case
  proof (cases "i < n")
    case True
    with 1 have ib: "in_buffer i" by (simp add: in_buffer_def)
    have "pad_loop n i buf = pad_loop n (i + 1) (buf(nat i := 0))"
      using True ib by (subst pad_loop.simps) simp
    also have "\<dots> = Returns (\<lambda>j. if nat (i + 1) \<le> j \<and> int j < n then 0 else (buf(nat i := 0)) j)"
      using 1 True ib by (simp add: fun_upd_def)
    also have "(\<lambda>j. if nat (i + 1) \<le> j \<and> int j < n then 0 else (buf(nat i := 0)) j)
        = (\<lambda>j. if nat i \<le> j \<and> int j < n then 0 else buf j)"
      using True 1(3) by (auto simp: fun_eq_iff)
    finally show ?thesis .
  next
    case False
    then show ?thesis by (subst pad_loop.simps) (auto simp: fun_eq_iff)
  qed
qed

lemma pad_loop_overrun:
  "MAX_TRANSFER_LENGTH < n \<Longrightarrow> i < n \<Longrightarrow> pad_loop n i buf = BufferOverrun"
proof (induction n i buf rule: pad_loop.induct)
  case (1 n i buf)
  show ?case
  proof (cases "in_buffer i")
    case True
    then have "i + 1 < n" using 1(2) by (simp add: in_buffer_def)
    with 1 True show ?thesis by (subst pad_loop.simps) (simp add: fun_upd_def)
  next
    case False
    with 1 show ?thesis by (subst pad_loop.simps) simp
  qed
qed

lemma rx_loop_ok:
  "n \<le> MAX_TRANSFER_LENGTH \<Longrightarrow> 0 \<le> i \<Longrightarrow>
   rx_loop n i rx acc = Returns (acc @ map (\<lambda>j. uint (rx j)) [nat i..<nat n])"
proof (induction n i rx acc rule: rx_loop.induct)
  case (1 n i rx acc)
  show ?case
  proof (cases "i < n")
    case True
    with 1 have ib: "in_buffer i" by (simp add: in_buffer_def)
    have "rx_loop n i rx acc = rx_loop n (i + 1) rx (acc @ [uint (rx (nat i))])"
      using True ib by (subst rx_loop.simps) simp
    also have "\<dots> = Returns ((acc @ [uint (rx (nat i))]) @ map (\<lambda>j. uint (rx j)) [nat (i + 1)..<nat n])"
      using 1 True ib by simp
    also have "[nat i..<nat n] = nat i # [nat (i + 1)..<nat n]"
      using True 1(3) by (simp add: upt_conv_Cons nat_add_distrib)
    then have "(acc @ [uint (rx (nat i))]) @ map (\<lambda>j. uint (rx j)) [nat (i + 1)..<nat n]
       = acc @ map (\<lambda>j. uint (rx j)) [nat i..<nat n]" by simp
    finally show ?thesis .
  next
    case False
    then show ?thesis by (subst rx_loop.simps) simp
  qed
qed

lemma rx_loop_overrun:
  "MAX_TRANSFER_LENGTH < n \<Longrightarrow> i < n \<Longrightarrow> rx_loop n i rx acc = BufferOverrun"
proof (induction n i rx acc rule: rx_loop.induct)
  case (1 n i rx acc)
  show ?case
  proof (cases "in_buffer i")
    case True
    then have "i + 1 < n" using 1(2) by (simp add: in_buffer_def)
    with 1 True show ?thesis by (subst rx_loop.simps) simp
  next
    case False
    with 1 show ?thesis by (subst rx_loop.simps) simp
  qed
qed


lemma tx_loop_ok:
  "n \<le> MAX_TRANSFER_LENGTH \<Longrightarrow> 0 \<le> i \<Longrightarrow>
   (\<forall>j. nat i \<le> j \<and> int j < n \<longrightarrow> 0 \<le> seq ! j \<and> seq ! j \<le> 255) \<Longrightarrow>
   tx_loop seq n i buf =
     Returns (\<lambda>j. if nat i \<le> j \<and> int j < n then word_of_int (seq ! j) else buf j)"
proof (induction seq n i buf rule: tx_loop.induct)
  case (1 seq n i buf)
  note bound = "1.prems"(1) and pos = "1.prems"(2) and valid = "1.prems"(3)
  show ?case
  proof (cases "i < n")
    case True
    with bound pos have ib: "in_buffer i" by (simp add: in_buffer_def)
    from True pos valid have v: "0 \<le> seq ! nat i \<and> seq ! nat i \<le> 255" by simp
    then have p: "PyInt_AsLong (seq ! nat i) = seq ! nat i" by (simp add: PyInt_AsLong_byte)
    from v p have ok: "\<not> (PyInt_AsLong (seq ! nat i) > 255 \<or> PyInt_AsLong (seq ! nat i) < 0)"
      by simp
    from pos have pos': "0 \<le> i + 1" by simp
    from valid pos have valid':
      "\<forall>j. nat (i + 1) \<le> j \<and> int j < n \<longrightarrow> 0 \<le> seq ! j \<and> seq ! j \<le> 255"
      by (simp add: nat_add_distrib)
    have "tx_loop seq n i buf =
        tx_loop seq n (i + 1) (buf(nat i := word_of_int (PyInt_AsLong (seq ! nat i))))"
      using True ib ok by (subst tx_loop.simps) simp
    also have "\<dots> = Returns (\<lambda>j. if nat (i + 1) \<le> j \<and> int j < n then word_of_int (seq ! j)
                    else (buf(nat i := word_of_int (PyInt_AsLong (seq ! nat i)))) j)"
      by (rule "1.IH" [OF True refl ok ib bound pos' valid'])
    also have "(\<lambda>j. if nat (i + 1) \<le> j \<and> int j < n then word_of_int (seq ! j)
                    else (buf(nat i := word_of_int (PyInt_AsLong (seq ! nat i)))) j)
        = (\<lambda>j. if nat i \<le> j \<and> int j < n then word_of_int (seq ! j) else buf j)"
      using True pos p by (auto simp: fun_eq_iff)
    finally show ?thesis .
  next
    case False
    then show ?thesis by (subst tx_loop.simps) (auto simp: fun_eq_iff)
  qed
qed

lemma tx_loop_bad:
  "0 \<le> i \<Longrightarrow> i \<le> k \<Longrightarrow> k < n \<Longrightarrow> k \<le> MAX_TRANSFER_LENGTH \<Longrightarrow>
   seq ! nat k > 255 \<or> seq ! nat k < 0 \<Longrightarrow>
   tx_loop seq n i buf =
     Raises PyExc_AttributeError (Msg ''Transmit data should be valid 8-bit data'')"
proof (induction seq n i buf rule: tx_loop.induct)
  case (1 seq n i buf)
  note pos = "1.prems"(1) and ik = "1.prems"(2) and kn = "1.prems"(3)
    and kb = "1.prems"(4) and bad = "1.prems"(5)
  from ik kn have lt: "i < n" by simp
  show ?case
  proof (cases "PyInt_AsLong (seq ! nat i) > 255 \<or> PyInt_AsLong (seq ! nat i) < 0")
    case True
    with lt show ?thesis by (subst tx_loop.simps) simp
  next
    case False
    then have "\<not> (seq ! nat i > 255 \<or> seq ! nat i < 0)"
      using PyInt_AsLong_bad [of "seq ! nat i"] by simp
    with bad have "i \<noteq> k" by auto
    with ik have le: "i + 1 \<le> k" by simp
    with pos kb have ib: "in_buffer i" by (simp add: in_buffer_def)
    from pos have pos': "0 \<le> i + 1" by simp
    have "tx_loop seq n i buf =
        tx_loop seq n (i + 1) (buf(nat i := word_of_int (PyInt_AsLong (seq ! nat i))))"
      using lt False ib by (subst tx_loop.simps) simp
    also have "\<dots> = Raises PyExc_AttributeError (Msg ''Transmit data should be valid 8-bit data'')"
      by (rule "1.IH" [OF lt refl False ib pos' le kn kb bad])
    finally show ?thesis .
  qed
qed

lemma tx_loop_overrun:
  "0 \<le> i \<Longrightarrow> i \<le> MAX_TRANSFER_LENGTH \<Longrightarrow> MAX_TRANSFER_LENGTH < n \<Longrightarrow>
   (\<forall>j. i \<le> j \<and> j \<le> MAX_TRANSFER_LENGTH \<longrightarrow> 0 \<le> seq ! nat j \<and> seq ! nat j \<le> 255) \<Longrightarrow>
   tx_loop seq n i buf = BufferOverrun"
proof (induction seq n i buf rule: tx_loop.induct)
  case (1 seq n i buf)
  note pos = "1.prems"(1) and ib = "1.prems"(2) and long = "1.prems"(3)
    and valid = "1.prems"(4)
  from ib long have lt: "i < n" by simp
  from pos ib valid have v: "0 \<le> seq ! nat i \<and> seq ! nat i \<le> 255" by simp
  then have p: "PyInt_AsLong (seq ! nat i) = seq ! nat i" by (simp add: PyInt_AsLong_byte)
  from v p have ok: "\<not> (PyInt_AsLong (seq ! nat i) > 255 \<or> PyInt_AsLong (seq ! nat i) < 0)"
    by simp
  show ?case
  proof (cases "in_buffer i")
    case True
    then have le: "i + 1 \<le> MAX_TRANSFER_LENGTH" by (simp add: in_buffer_def)
    from pos have pos': "0 \<le> i + 1" by simp
    from valid have valid':
      "\<forall>j. i + 1 \<le> j \<and> j \<le> MAX_TRANSFER_LENGTH \<longrightarrow> 0 \<le> seq ! nat j \<and> seq ! nat j \<le> 255"
      by simp
    have "tx_loop seq n i buf =
        tx_loop seq n (i + 1) (buf(nat i := word_of_int (PyInt_AsLong (seq ! nat i))))"
      using lt ok True by (subst tx_loop.simps) simp
    also have "\<dots> = BufferOverrun"
      by (rule "1.IH" [OF lt refl ok True pos' le long valid'])
    finally show ?thesis .
  next
    case False
    with lt ok show ?thesis by (subst tx_loop.simps) simp
  qed
qed

subsection \<open>\<^verbatim>\<open>SPI_transfer\<close> in closed form\<close>

lemma byte_item: "0 \<le> uint (b :: byte) \<and> uint b \<le> 255"
  using uint_lt2p [of b] by simp

lemma tx_loop_bytes:
  fixes bs :: "byte list"
  assumes "int (length bs) \<le> MAX_TRANSFER_LENGTH"
  shows "tx_loop (map uint bs) (int (length bs)) 0 buf =
           Returns (\<lambda>j. if j < length bs then bs ! j else buf j)"
proof -
  have "tx_loop (map uint bs) (int (length bs)) 0 buf =
      Returns (\<lambda>j. if nat 0 \<le> j \<and> int j < int (length bs)
                    then word_of_int (map uint bs ! j) else buf j)"
    by (rule tx_loop_ok [OF assms]) (simp_all add: byte_item)
  also have "(\<lambda>j. if nat 0 \<le> j \<and> int j < int (length bs)
                    then word_of_int (map uint bs ! j) else buf j)
      = (\<lambda>j. if j < length bs then bs ! j else buf j)"
    by (auto simp: fun_eq_iff)
  finally show ?thesis .
qed

lemma padded_bytes:
  fixes bs :: "byte list"
  assumes "length bs \<le> n"
  shows "map (\<lambda>j. if length bs \<le> j \<and> j < n then 0 else if j < length bs then bs ! j else buf j)
             [0..<n] = bs @ replicate (n - length bs) 0"
  using assms by (intro nth_equalityI) (auto simp: nth_append)

lemma transfer_length_of_max: "transfer_length_of a b = max a b"
  by (simp add: transfer_length_of_def max_def)

lemma transfer_in_bounds:
  fixes bs :: "byte list"
  assumes len: "int (length bs) \<le> MAX_TRANSFER_LENGTH"
    and rx: "rx_length_of rx_arg \<le> MAX_TRANSFER_LENGTH"
    and n: "n = nat (transfer_length_of (int (length bs)) (rx_length_of rx_arg))"
    and t: "t = \<lparr>tx_bytes = bs @ replicate (n - length bs) 0, len = of_nat n,
                 delay_usecs = 5, speed_hz = 1000000, bits_per_word = 8\<rparr>"
  shows "SPI_transfer e self (map uint bs) rx_arg =
     (Returns (map (\<lambda>j. uint (store_rx (take n (snd (spi_message e (fd self) t))) (stack_rx e) j))
                [0..<n]),
      Ioctl_message (fd self) t #
        (if fst (spi_message e (fd self) t) < 1
         then [Printf ''ERROR: Can't send spi message'', Perror] else []))"
proof -
  define m where "m = transfer_length_of (int (length bs)) (rx_length_of rx_arg)"
  have m_le: "m \<le> MAX_TRANSFER_LENGTH" and m_ge: "int (length bs) \<le> m"
    using len rx by (simp_all add: m_def transfer_length_of_max)
  have nm: "n = nat m" and mn: "m = int n" using n m_ge by (simp_all add: m_def)
  have ln: "length bs \<le> n" using m_ge nm by simp
  have pad: "pad_loop m (int (length bs)) (\<lambda>j. if j < length bs then bs ! j else stack_tx e j) =
      Returns (\<lambda>j. if length bs \<le> j \<and> j < n then 0
                    else if j < length bs then bs ! j else stack_tx e j)"
    using pad_loop_ok [OF m_le, of "int (length bs)"] by (simp add: mn)
  have tx: "map (\<lambda>j. if length bs \<le> j \<and> j < n then 0
                    else if j < length bs then bs ! j else stack_tx e j) [0..<n] = tx_bytes t"
    using padded_bytes [OF ln] by (simp add: t)
  have t': "\<lparr>tx_bytes = tx_bytes t, len = word_of_int m,
                 delay_usecs = 5, speed_hz = 1000000, bits_per_word = 8\<rparr> = t"
    by (simp add: t mn)
  have rxl: "rx_loop m 0 rxb [] = Returns (map (\<lambda>j. uint (rxb j)) [0..<n])" for rxb
    using rx_loop_ok [OF m_le, of 0 rxb "[]"] by (simp add: nm)
  show ?thesis
    unfolding SPI_transfer_def Let_def length_map tx_loop_bytes [OF len] outcome.case
      m_def [symmetric] pad tx nm [symmetric] t' rxl
    by (simp add: case_prod_beta)
qed

lemma transfer_overrun:
  fixes bs :: "byte list"
  assumes "MAX_TRANSFER_LENGTH < int (length bs) \<or> MAX_TRANSFER_LENGTH < rx_length_of rx_arg"
  shows "SPI_transfer e self (map uint bs) rx_arg = (BufferOverrun, [])"
proof (cases "MAX_TRANSFER_LENGTH < int (length bs)")
  case True
  have "tx_loop (map uint bs) (int (length bs)) 0 (stack_tx e) = BufferOverrun"
  proof (rule tx_loop_overrun [OF _ _ True])
    show "\<forall>j. 0 \<le> j \<and> j \<le> MAX_TRANSFER_LENGTH \<longrightarrow>
        0 \<le> map uint bs ! nat j \<and> map uint bs ! nat j \<le> 255"
      using True by (auto simp: byte_item)
  qed (simp_all add: MAX_TRANSFER_LENGTH_def)
  then show ?thesis by (simp add: SPI_transfer_def)
next
  case False
  with assms have rx: "MAX_TRANSFER_LENGTH < rx_length_of rx_arg" by simp
  from False have len: "int (length bs) \<le> MAX_TRANSFER_LENGTH" by simp
  have m: "transfer_length_of (int (length bs)) (rx_length_of rx_arg) = rx_length_of rx_arg"
    using len rx by (simp add: transfer_length_of_def)
  have "pad_loop (rx_length_of rx_arg) (int (length bs)) buf = BufferOverrun" for buf
    using pad_loop_overrun [OF rx] len rx by simp
  then show ?thesis
    unfolding SPI_transfer_def Let_def length_map tx_loop_bytes [OF len] outcome.case m
    by simp
qed

lemma transfer_bad_item:
  assumes "k < length obj" "int k \<le> MAX_TRANSFER_LENGTH" "obj ! k > 255 \<or> obj ! k < 0"
  shows "SPI_transfer e self obj rx_arg =
     (Raises PyExc_AttributeError (Msg ''Transmit data should be valid 8-bit data''), [])"
proof -
  have "tx_loop obj (int (length obj)) 0 (stack_tx e) =
      Raises PyExc_AttributeError (Msg ''Transmit data should be valid 8-bit data'')"
    using tx_loop_bad [of 0 "int k" "int (length obj)" obj] assms by simp
  then show ?thesis by (simp add: SPI_transfer_def)
qed

lemma rx_loop_length:
  assumes "rx_loop n 0 rxb [] = Returns res"
  shows "length res = nat n"
proof (cases "n \<le> MAX_TRANSFER_LENGTH")
  case True
  from rx_loop_ok [OF True, of 0 rxb "[]"] assms show ?thesis by auto
next
  case False
  then have "MAX_TRANSFER_LENGTH < n" and "0 < n" by (simp_all add: MAX_TRANSFER_LENGTH_def)
  from rx_loop_overrun [OF this, of rxb "[]"] assms show ?thesis by simp
qed

lemma transfer_returns_length:
  assumes "fst (SPI_transfer e self obj rx_arg) = Returns res"
  shows "length res = nat (transfer_length_of (int (length obj)) (rx_length_of rx_arg))"
  using assms
  by (auto simp: SPI_transfer_def Let_def case_prod_beta rx_loop_length split: outcome.splits)

lemma negative_rx_length: "r \<le> 0 \<Longrightarrow> 0 \<le> a \<Longrightarrow> transfer_length_of a r = a"
  by (simp add: transfer_length_of_def)

lemma pad_loop_none: "pad_loop n n buf = Returns buf"
  by (subst pad_loop.simps) simp

lemma transfer_same_length:
  assumes "transfer_length_of (int (length obj)) (rx_length_of x) = m"
    and "transfer_length_of (int (length obj)) (rx_length_of y) = m"
  shows "SPI_transfer e self obj x = SPI_transfer e self obj y"
  unfolding SPI_transfer_def Let_def assms by (rule refl)

lemma unat_len: "n \<le> 256 \<Longrightarrow> unat (of_nat n :: 32 word) = n"
  by (simp add: unat_of_nat)

lemma tx_loop_within:
  "n \<le> MAX_TRANSFER_LENGTH \<Longrightarrow> 0 \<le> i \<Longrightarrow> tx_loop seq n i buf \<noteq> BufferOverrun"
proof (induction seq n i buf rule: tx_loop.induct)
  case (1 seq n i buf)
  note bound = "1.prems"(1) and pos = "1.prems"(2)
  show ?case
  proof (cases "i < n")
    case True
    with bound pos have ib: "in_buffer i" by (simp add: in_buffer_def)
    from pos have pos': "0 \<le> i + 1" by simp
    show ?thesis
    proof (cases "PyInt_AsLong (seq ! nat i) > 255 \<or> PyInt_AsLong (seq ! nat i) < 0")
      case bad: True
      with True show ?thesis by (subst tx_loop.simps) simp
    next
      case ok: False
      have "tx_loop seq n i buf =
          tx_loop seq n (i + 1) (buf(nat i := word_of_int (PyInt_AsLong (seq ! nat i))))"
        using True ib ok by (subst tx_loop.simps) simp
      with "1.IH" [OF True refl ok ib bound pos'] show ?thesis by (simp add: fun_upd_def)
    qed
  next
    case False
    then show ?thesis by (subst tx_loop.simps) simp
  qed
qed

lemma transfer_within:
  assumes "int (length obj) \<le> MAX_TRANSFER_LENGTH" and "rx_length_of rx_arg \<le> MAX_TRANSFER_LENGTH"
  shows "fst (SPI_transfer e self obj rx_arg) \<noteq> BufferOverrun"
proof -
  define m where "m = transfer_length_of (int (length obj)) (rx_length_of rx_arg)"
  have m_le: "m \<le> MAX_TRANSFER_LENGTH" using assms by (simp add: m_def transfer_length_of_max)
  have tx: "tx_loop obj (int (length obj)) 0 (stack_tx e) \<noteq> BufferOverrun"
    using assms(1) by (rule tx_loop_within) simp
  have pad: "pad_loop m (int (length obj)) buf
      = Returns (\<lambda>j. if nat (int (length obj)) \<le> j \<and> int j < m then 0 else buf j)" for buf
    by (rule pad_loop_ok [OF m_le]) simp
  have rx: "rx_loop m 0 rxb [] = Returns ([] @ map (\<lambda>j. uint (rxb j)) [nat 0..<nat m])" for rxb
    by (rule rx_loop_ok [OF m_le]) simp
  show ?thesis
    using tx unfolding SPI_transfer_def Let_def m_def [symmetric] pad rx
    by (simp add: case_prod_beta split: outcome.splits)
qed

lemma transfer_overrun_valid_prefix:
  assumes "MAX_TRANSFER_LENGTH < int (length obj)"
    and "\<forall>j. j \<le> 256 \<longrightarrow> 0 \<le> obj ! j \<and> obj ! j \<le> 255"
  shows "SPI_transfer e self obj rx_arg = (BufferOverrun, [])"
proof -
  have "tx_loop obj (int (length obj)) 0 (stack_tx e) = BufferOverrun"
  proof (rule tx_loop_overrun [OF _ _ assms(1)])
    show "\<forall>j. 0 \<le> j \<and> j \<le> MAX_TRANSFER_LENGTH \<longrightarrow> 0 \<le> obj ! nat j \<and> obj ! nat j \<le> 255"
    proof (intro allI impI)
      fix j :: int
      assume "0 \<le> j \<and> j \<le> MAX_TRANSFER_LENGTH"
      then have "nat j \<le> 256" by (simp add: MAX_TRANSFER_LENGTH_def nat_le_iff)
      with assms(2) show "0 \<le> obj ! nat j \<and> obj ! nat j \<le> 255" by blast
    qed
  qed (simp_all add: MAX_TRANSFER_LENGTH_def)
  then show ?thesis by (simp add: SPI_transfer_def)
qed

section \<open>The claims\<close>

subsection \<open>C1: the value \<^verbatim>\<open>transfer\<close> returns\<close>

text \<open>
  C1, as amended. For every call to \<^verbatim>\<open>transfer\<close> whose \<open>txData\<close> is a sequence of
  bytes of length at most 256 and whose \<open>minimumResponseLength\<close> is at most 256 (or
  absent), whatever the descriptor, the call returns the first \<open>n\<close> bytes of the
  receive buffer in order, where \<open>n\<close> is the larger of the length of \<open>txData\<close> and
  \<open>minimumResponseLength\<close>; the receive buffer is what the array held, overwritten
  from index 0 by the bytes the driver copied for the request \<open>t\<close>. With the second
  argument 0 or absent, \<open>n\<close> is the length of \<open>txData\<close>.
\<close>

theorem transfer_returns_receive_buffer:
  fixes bs :: "byte list"
  assumes "int (length bs) \<le> MAX_TRANSFER_LENGTH"
    and "rx_length_of rx_arg \<le> MAX_TRANSFER_LENGTH"
    and "n = max (length bs) (nat (rx_length_of rx_arg))"
    and "t = \<lparr>tx_bytes = bs @ replicate (n - length bs) 0, len = of_nat n,
               delay_usecs = 5, speed_hz = 1000000, bits_per_word = 8\<rparr>"
    and "rx_buf = store_rx (take n (snd (spi_message e (fd self) t))) (stack_rx e)"
  shows "fst (SPI_transfer e self (map uint bs) rx_arg) = Returns (map (\<lambda>j. uint (rx_buf j)) [0..<n])
       \<and> length (map (\<lambda>j. uint (rx_buf j)) [0..<n]) = max (length bs) (nat (rx_length_of rx_arg))
       \<and> (rx_arg = None \<or> rx_arg = Some 0 \<longrightarrow> n = length bs)"
proof -
  have n': "n = nat (transfer_length_of (int (length bs)) (rx_length_of rx_arg))"
    using assms(3) by (simp add: transfer_length_of_max)
  have "fst (SPI_transfer e self (map uint bs) rx_arg) = Returns (map (\<lambda>j. uint (rx_buf j)) [0..<n])"
    by (simp add: transfer_in_bounds [OF assms(1,2) n' assms(4)] assms(5))
  moreover have "rx_arg = None \<or> rx_arg = Some 0 \<longrightarrow> n = length bs"
    using assms(3) by (auto simp: rx_length_of_def)
  ultimately show ?thesis using assms(3) by simp
qed

text \<open>On the loopback device, three bytes and a minimum of five give five bytes back.\<close>

theorem transfer_returns_receive_buffer_witness:
  "int (length [1, 2, 3 :: byte]) \<le> MAX_TRANSFER_LENGTH
   \<and> rx_length_of (Some 5) \<le> MAX_TRANSFER_LENGTH
   \<and> fst (SPI_transfer loopback opened (map uint [1, 2, 3 :: byte]) (Some 5)) = Returns [1, 2, 3, 0, 0]"
proof -
  have h1: "int (length [1, 2, 3 :: byte]) \<le> MAX_TRANSFER_LENGTH"
    by (simp add: MAX_TRANSFER_LENGTH_def)
  have h2: "rx_length_of (Some 5) \<le> MAX_TRANSFER_LENGTH"
    by (simp add: MAX_TRANSFER_LENGTH_def rx_length_of_def)
  have v: "map (\<lambda>j. uint (store_rx (take 5 (snd (spi_message loopback (fd opened)
        \<lparr>tx_bytes = [1, 2, 3] @ replicate (5 - length [1, 2, 3 :: byte]) 0, len = of_nat 5,
               delay_usecs = 5, speed_hz = 1000000, bits_per_word = 8\<rparr>))) (stack_rx loopback) j))
        [0..<5] = [1, 2, 3, 0, 0]"
    by code_simp
  have n: "(5::nat) = max (length [1, 2, 3 :: byte]) (nat (rx_length_of (Some 5)))"
    by (simp add: rx_length_of_def)
  from transfer_returns_receive_buffer [OF h1 h2 n refl refl, of loopback opened] v h1 h2
  show ?thesis by simp
qed

text \<open>
  C1 as stated asks only that \<open>minimumResponseLength\<close> be non-negative. With three valid
  bytes and a minimum of 300 the padding loop stores at index 256 of \<^verbatim>\<open>tx_buf\<close>: the
  call does not return 300 bytes.
\<close>

theorem transfer_large_minimum_counterexample:
  "SPI_transfer loopback opened [1, 2, 3] (Some 300) = (BufferOverrun, [])"
  using transfer_overrun [of "[1, 2, 3]" "Some 300" loopback opened]
  by (simp add: rx_length_of_def MAX_TRANSFER_LENGTH_def)

subsection \<open>C2: the transmit buffer handed to the driver\<close>

text \<open>
  C2, as amended. For every call to \<^verbatim>\<open>transfer\<close> whose \<open>txData\<close> is a sequence of
  bytes and whose \<open>minimumResponseLength\<close> \<open>N\<close> is greater than the length of \<open>txData\<close>
  and at most 256, the first thing the call does to the system is the message request
  on the object's descriptor; its transmit bytes number \<open>N\<close>, its \<^verbatim>\<open>len\<close> is \<open>N\<close>,
  the first bytes are those of \<open>txData\<close> in order and every byte from the length of
  \<open>txData\<close> up to \<open>N - 1\<close> is zero.
\<close>

theorem transfer_request_zero_padded:
  fixes bs :: "byte list"
  assumes "int (length bs) < rx_length_of rx_arg"
    and "rx_length_of rx_arg \<le> MAX_TRANSFER_LENGTH"
  shows "\<exists>t rest. snd (SPI_transfer e self (map uint bs) rx_arg) = Ioctl_message (fd self) t # rest
           \<and> length (tx_bytes t) = nat (rx_length_of rx_arg)
           \<and> unat (len t) = nat (rx_length_of rx_arg)
           \<and> take (length bs) (tx_bytes t) = bs
           \<and> (\<forall>j. length bs \<le> j \<and> j < nat (rx_length_of rx_arg) \<longrightarrow> tx_bytes t ! j = 0)"
proof -
  define n where "n = nat (rx_length_of rx_arg)"
  define t where "t = \<lparr>tx_bytes = bs @ replicate (n - length bs) 0, len = of_nat n,
               delay_usecs = 5, speed_hz = 1000000, bits_per_word = 8\<rparr>"
  have len: "int (length bs) \<le> MAX_TRANSFER_LENGTH" using assms by simp
  have n': "n = nat (transfer_length_of (int (length bs)) (rx_length_of rx_arg))"
    using assms(1) by (simp add: n_def transfer_length_of_def)
  have ln: "length bs \<le> n" and n256: "n \<le> 256"
    using assms by (simp_all add: n_def MAX_TRANSFER_LENGTH_def)
  have "snd (SPI_transfer e self (map uint bs) rx_arg) = Ioctl_message (fd self) t #
        (if fst (spi_message e (fd self) t) < 1
         then [Printf ''ERROR: Can't send spi message'', Perror] else [])"
    by (simp add: transfer_in_bounds [OF len assms(2) n' t_def])
  moreover have "length (tx_bytes t) = n" using ln by (simp add: t_def)
  moreover have "unat (len t) = n" using n256 by (simp add: t_def unat_len)
  moreover have "take (length bs) (tx_bytes t) = bs" by (simp add: t_def)
  moreover have "\<forall>j. length bs \<le> j \<and> j < n \<longrightarrow> tx_bytes t ! j = 0"
    using ln by (auto simp: t_def nth_append)
  ultimately show ?thesis unfolding n_def by blast
qed

text \<open>Two bytes and a minimum of four: the driver is handed the two bytes and two zeros.\<close>

theorem transfer_request_zero_padded_witness:
  "int (length [9, 8 :: byte]) < rx_length_of (Some 4)
   \<and> rx_length_of (Some 4) \<le> MAX_TRANSFER_LENGTH
   \<and> snd (SPI_transfer loopback opened (map uint [9, 8 :: byte]) (Some 4)) =
       [Ioctl_message 3 \<lparr>tx_bytes = [9, 8, 0, 0], len = 4, delay_usecs = 5,
                          speed_hz = 1000000, bits_per_word = 8\<rparr>]
   \<and> (\<exists>t rest. snd (SPI_transfer loopback opened (map uint [9, 8 :: byte]) (Some 4)) =
          Ioctl_message (fd opened) t # rest
           \<and> length (tx_bytes t) = nat (rx_length_of (Some 4))
           \<and> unat (len t) = nat (rx_length_of (Some 4))
           \<and> take (length [9, 8 :: byte]) (tx_bytes t) = [9, 8]
           \<and> (\<forall>j. length [9, 8 :: byte] \<le> j \<and> j < nat (rx_length_of (Some 4)) \<longrightarrow> tx_bytes t ! j = 0))"
proof -
  have h1: "int (length [9, 8 :: byte]) < rx_length_of (Some 4)"
    by (simp add: rx_length_of_def)
  have h2: "rx_length_of (Some 4) \<le> MAX_TRANSFER_LENGTH"
    by (simp add: MAX_TRANSFER_LENGTH_def rx_length_of_def)
  have v: "snd (SPI_transfer loopback opened (map uint [9, 8 :: byte]) (Some 4)) =
       [Ioctl_message 3 \<lparr>tx_bytes = [9, 8, 0, 0], len = 4, delay_usecs = 5,
                          speed_hz = 1000000, bits_per_word = 8\<rparr>]"
    by code_simp
  from transfer_request_zero_padded [OF h1 h2, of loopback opened] h1 h2 v
  show ?thesis by blast
qed

text \<open>
  C2 as stated holds for every \<open>N\<close> greater than the length of \<open>txData\<close>. With an empty
  \<open>txData\<close> and \<open>N = 257\<close> the padding loop stores at index 256 of the 256-byte array
  and no request reaches the driver.
\<close>

theorem transfer_padding_counterexample:
  "SPI_transfer loopback opened [] (Some 257) = (BufferOverrun, [])"
  using transfer_overrun [of "[]" "Some 257" loopback opened]
  by (simp add: rx_length_of_def MAX_TRANSFER_LENGTH_def)

subsection \<open>C3: an item that is not a byte\<close>

text \<open>
  C3, as amended. For every call to \<^verbatim>\<open>transfer\<close> whose \<open>txData\<close> has an item outside
  0 to 255 at an index of at most 256, the call fails with \<^verbatim>\<open>AttributeError\<close> and the
  message \<^verbatim>\<open>Transmit data should be valid 8-bit data\<close>, and it has made no system
  call and no console write: the failure comes before any device I/O.
\<close>

theorem transfer_rejects_invalid_item:
  assumes "k < length obj" and "int k \<le> MAX_TRANSFER_LENGTH"
    and "obj ! k > 255 \<or> obj ! k < 0"
  shows "SPI_transfer e self obj rx_arg =
     (Raises PyExc_AttributeError (Msg ''Transmit data should be valid 8-bit data''), [])"
proof -
  have "tx_loop obj (int (length obj)) 0 (stack_tx e) =
      Raises PyExc_AttributeError (Msg ''Transmit data should be valid 8-bit data'')"
    using tx_loop_bad [of 0 "int k" "int (length obj)" obj] assms by simp
  then show ?thesis by (simp add: SPI_transfer_def)
qed

text \<open>The item -1 at index 1 of three items.\<close>

theorem transfer_rejects_invalid_item_witness:
  "(1::nat) < length [3, - 1, 7 :: int] \<and> int 1 \<le> MAX_TRANSFER_LENGTH
   \<and> ([3, - 1, 7 :: int] ! 1 > 255 \<or> [3, - 1, 7 :: int] ! 1 < 0)
   \<and> SPI_transfer loopback opened [3, - 1, 7] (Some 2) =
     (Raises PyExc_AttributeError (Msg ''Transmit data should be valid 8-bit data''), [])"
proof -
  have h1: "(1::nat) < length [3, - 1, 7 :: int]" by simp
  have h2: "int 1 \<le> MAX_TRANSFER_LENGTH" by (simp add: MAX_TRANSFER_LENGTH_def)
  have h3: "[3, - 1, 7 :: int] ! 1 > 255 \<or> [3, - 1, 7 :: int] ! 1 < 0" by simp
  from transfer_rejects_invalid_item [OF h1 h2 h3, of loopback opened "Some 2"] h1 h2 h3
  show ?thesis by blast
qed

text \<open>
  C3 as stated names \<^verbatim>\<open>ValueError\<close>: the exception set for the sequence \<open>[1, 256]\<close>
  is \<^verbatim>\<open>AttributeError\<close>, another class. And an invalid item that follows 257 valid ones
  is not reached: the store at index 256 of \<^verbatim>\<open>tx_buf\<close> comes first.
\<close>

theorem transfer_invalid_item_counterexample:
  "SPI_transfer loopback opened [1, 256] None =
     (Raises PyExc_AttributeError (Msg ''Transmit data should be valid 8-bit data''), [])
   \<and> PyExc_AttributeError \<noteq> PyExc_ValueError
   \<and> SPI_transfer loopback opened (replicate 257 0 @ [256]) None = (BufferOverrun, [])"
proof -
  have "SPI_transfer loopback opened (replicate 257 0 @ [256]) None = (BufferOverrun, [])"
    by (rule transfer_overrun_valid_prefix) (simp_all add: MAX_TRANSFER_LENGTH_def nth_append)
  then show ?thesis
    using transfer_bad_item [of 1 "[1, 256]" loopback opened None]
    by (simp add: MAX_TRANSFER_LENGTH_def)
qed

subsection \<open>C4: more than 256 items\<close>

text \<open>
  C4 asks that a \<open>txData\<close> longer than 256 be rejected with \<^verbatim>\<open>BufferTooLarge\<close>. The
  code has no such check: with 257 zero bytes on an opened device the loop of lines
  124 to 133 stores the item of index 256 past the end of \<^verbatim>\<open>tx_buf\<close>, and nothing is
  raised.
\<close>

theorem transfer_long_data_overruns:
  "SPI_transfer loopback opened (replicate 257 0) None = (BufferOverrun, [])"
  using transfer_overrun [of "replicate 257 0" None loopback opened]
  by (simp add: MAX_TRANSFER_LENGTH_def)

subsection \<open>C5: \<^verbatim>\<open>transfer\<close> on an unopened object\<close>

text \<open>
  C5, as amended. \<^verbatim>\<open>SPI_transfer\<close> does not examine the descriptor. For every call
  on an unopened object (descriptor -1) with a \<open>txData\<close> of at most 256 bytes and a
  \<open>minimumResponseLength\<close> of at most 256, the call raises nothing: it issues the
  message request \<open>t\<close> on descriptor -1, with \<open>txData\<close> as the first bytes sent and
  zeros after them, prints its error message when the driver answers less than 1, and
  returns the first \<open>n\<close> bytes of the receive buffer in order, \<open>n\<close> being
  max(len(txData), minimumResponseLength): what the array held, overwritten from index
  0 by the bytes the driver copied.
\<close>

theorem transfer_unopened_issues_request:
  fixes bs :: "byte list"
  assumes "fd self = - 1"
    and "int (length bs) \<le> MAX_TRANSFER_LENGTH"
    and "rx_length_of rx_arg \<le> MAX_TRANSFER_LENGTH"
    and "n = max (length bs) (nat (rx_length_of rx_arg))"
    and "t = \<lparr>tx_bytes = bs @ replicate (n - length bs) 0, len = of_nat n,
               delay_usecs = 5, speed_hz = 1000000, bits_per_word = 8\<rparr>"
    and "rx_buf = store_rx (take n (snd (spi_message e (- 1) t))) (stack_rx e)"
  shows "SPI_transfer e self (map uint bs) rx_arg =
           (Returns (map (\<lambda>j. uint (rx_buf j)) [0..<n]),
            Ioctl_message (- 1) t #
              (if fst (spi_message e (- 1) t) < 1
               then [Printf ''ERROR: Can't send spi message'', Perror] else []))
       \<and> length (map (\<lambda>j. uint (rx_buf j)) [0..<n]) = max (length bs) (nat (rx_length_of rx_arg))
       \<and> take (length bs) (tx_bytes t) = bs"
proof -
  have n': "n = nat (transfer_length_of (int (length bs)) (rx_length_of rx_arg))"
    using assms(4) by (simp add: transfer_length_of_max)
  have "SPI_transfer e self (map uint bs) rx_arg =
           (Returns (map (\<lambda>j. uint (rx_buf j)) [0..<n]),
            Ioctl_message (- 1) t #
              (if fst (spi_message e (- 1) t) < 1
               then [Printf ''ERROR: Can't send spi message'', Perror] else []))"
    using transfer_in_bounds [OF assms(2,3) n' assms(5), of e self]
    by (simp add: assms(1,6))
  moreover have "take (length bs) (tx_bytes t) = bs" by (simp add: assms(5))
  ultimately show ?thesis using assms(4) by simp
qed

text \<open>
  A new object and two bytes, where the driver rejects descriptor -1 and \<^verbatim>\<open>rx_buf\<close>
  held the byte 85 everywhere.
\<close>

theorem transfer_unopened_issues_request_witness:
  "fd SPI_new = - 1
   \<and> int (length [1, 2 :: byte]) \<le> MAX_TRANSFER_LENGTH
   \<and> rx_length_of None \<le> MAX_TRANSFER_LENGTH
   \<and> SPI_transfer loopback SPI_new (map uint [1, 2 :: byte]) None =
        (Returns [85, 85],
         [Ioctl_message (- 1) \<lparr>tx_bytes = [1, 2], len = 2, delay_usecs = 5,
                                speed_hz = 1000000, bits_per_word = 8\<rparr>,
          Printf ''ERROR: Can't send spi message'', Perror])"
proof -
  have h1: "fd SPI_new = - 1" by (simp add: SPI_new_def)
  have h2: "int (length [1, 2 :: byte]) \<le> MAX_TRANSFER_LENGTH"
    by (simp add: MAX_TRANSFER_LENGTH_def)
  have h3: "rx_length_of None \<le> MAX_TRANSFER_LENGTH"
    by (simp add: MAX_TRANSFER_LENGTH_def rx_length_of_def)
  have n: "(2::nat) = max (length [1, 2 :: byte]) (nat (rx_length_of None))"
    by (simp add: rx_length_of_def)
  have t: "\<lparr>tx_bytes = [1, 2 :: byte] @ replicate (2 - length [1, 2 :: byte]) 0, len = of_nat 2,
               delay_usecs = 5, speed_hz = 1000000, bits_per_word = 8\<rparr>
         = \<lparr>tx_bytes = [1, 2], len = 2, delay_usecs = 5, speed_hz = 1000000, bits_per_word = 8\<rparr>"
    by simp
  have k: "spi_message loopback (- 1) \<lparr>tx_bytes = [1, 2], len = 2, delay_usecs = 5,
               speed_hz = 1000000, bits_per_word = 8\<rparr> = (- 1, [])"
    by (simp add: loopback_def)
  have v: "map (\<lambda>j. uint (store_rx [] (stack_rx loopback) j)) [0..<2] = [85, 85]"
    by code_simp
  from transfer_unopened_issues_request [OF h1 h2 h3 n refl refl, of loopback] h1 h2 h3
  show ?thesis unfolding t k by (simp add: v)
qed

text \<open>
  C5 as stated asks for \<^verbatim>\<open>NotOpenError\<close> and no device I/O. On a new object the call
  with \<open>[1, 2]\<close> issues the request on descriptor -1; the driver rejects it, the code
  prints its message and returns the two bytes that \<^verbatim>\<open>rx_buf\<close> happened to hold.
\<close>

theorem transfer_unopened_counterexample:
  "SPI_transfer loopback SPI_new [1, 2] None =
     (Returns [85, 85],
      [Ioctl_message (- 1) \<lparr>tx_bytes = [1, 2], len = 2, delay_usecs = 5,
                             speed_hz = 1000000, bits_per_word = 8\<rparr>,
       Printf ''ERROR: Can't send spi message'', Perror])"
  by code_simp

subsection \<open>C6: \<^verbatim>\<open>close\<close> when the system call fails\<close>

text \<open>
  C6, as amended. For every opened object on which the system call \<^verbatim>\<open>close\<close> fails,
  \<^verbatim>\<open>close\<close> fails with \<^verbatim>\<open>IOError\<close> carrying the OS error, after that one system call,
  and the object is left as it was: the descriptor and the cached \<open>mode\<close>, \<open>bpw\<close> and
  \<open>msh\<close> keep their values.
\<close>

theorem close_failure_keeps_state:
  assumes "fd self \<noteq> - 1" and "sys_close e (fd self) = Some err"
  shows "SPI_close e self = (Raises PyExc_IOError (Errno err), self, [Sys_close (fd self)])"
  using assms by (simp add: SPI_close_def)

text \<open>The opened object where \<^verbatim>\<open>close\<close> fails with \<^verbatim>\<open>EIO\<close>.\<close>

theorem close_failure_keeps_state_witness:
  "fd opened \<noteq> - 1 \<and> sys_close stuck (fd opened) = Some 5
   \<and> SPI_close stuck opened = (Raises PyExc_IOError (Errno 5), opened, [Sys_close (fd opened)])"
proof -
  have h1: "fd opened \<noteq> - 1" by (simp add: opened_def)
  have h2: "sys_close stuck (fd opened) = Some 5" by (simp add: stuck_def)
  from close_failure_keeps_state [OF h1 h2] h1 h2 show ?thesis by blast
qed

text \<open>
  C6 as stated has the state reset to unopened. After the failed \<^verbatim>\<open>close\<close> the
  descriptor is still 3 and the cached fields still hold 1, 8 and 500000.
\<close>

theorem close_failure_counterexample:
  "SPI_close stuck \<lparr>fd = 3, mode = 1, bpw = 8, msh = 500000\<rparr> =
     (Raises PyExc_IOError (Errno 5), \<lparr>fd = 3, mode = 1, bpw = 8, msh = 500000\<rparr>, [Sys_close 3])"
  by (simp add: SPI_close_def stuck_def)

subsection \<open>C7: \<^verbatim>\<open>close\<close> twice\<close>

text \<open>
  C7. On every unopened object \<^verbatim>\<open>close\<close> succeeds without a system call. Whenever
  \<^verbatim>\<open>close\<close> succeeds (after a successful system call or on the unopened path) the
  descriptor is -1 and \<open>mode\<close>, \<open>bpw\<close> and \<open>msh\<close> are zero, and a second \<^verbatim>\<open>close\<close>,
  in any environment, succeeds again without a system call and changes nothing.
\<close>

theorem close_unopened_is_noop:
  "(fd self = - 1 \<longrightarrow>
      SPI_close e self = (Returns (), self\<lparr>fd := - 1, mode := 0, bpw := 0, msh := 0\<rparr>, []))
   \<and> (fst (SPI_close e self) = Returns () \<longrightarrow>
        fst (snd (SPI_close e self)) = self\<lparr>fd := - 1, mode := 0, bpw := 0, msh := 0\<rparr>
      \<and> SPI_close e' (fst (snd (SPI_close e self))) =
          (Returns (), self\<lparr>fd := - 1, mode := 0, bpw := 0, msh := 0\<rparr>, []))"
  by (auto simp: SPI_close_def split: option.splits)

text \<open>
  A new object, closed where every \<^verbatim>\<open>close\<close> would fail; and the opened object,
  closed on the loopback device and then closed again there.
\<close>

theorem close_unopened_is_noop_witness:
  "fd SPI_new = - 1
   \<and> SPI_close stuck SPI_new = (Returns (), SPI_new, [])
   \<and> fst (SPI_close loopback opened) = Returns ()
   \<and> fst (snd (SPI_close loopback opened)) = SPI_new
   \<and> SPI_close stuck (fst (snd (SPI_close loopback opened))) = (Returns (), SPI_new, [])"
proof -
  have h1: "fd SPI_new = - 1" by (simp add: SPI_new_def)
  have h2: "fst (SPI_close loopback opened) = Returns ()"
    by (simp add: SPI_close_def loopback_def opened_def)
  have r1: "SPI_new\<lparr>fd := - 1, mode := 0, bpw := 0, msh := 0\<rparr> = SPI_new"
    by (simp add: SPI_new_def)
  have r2: "opened\<lparr>fd := - 1, mode := 0, bpw := 0, msh := 0\<rparr> = SPI_new"
    by (simp add: SPI_new_def opened_def)
  from close_unopened_is_noop [of SPI_new stuck] close_unopened_is_noop [of opened loopback stuck]
    h1 h2 show ?thesis by (simp add: r1 r2)
qed

subsection \<open>C8: \<^verbatim>\<open>open\<close> on a missing device\<close>

text \<open>
  C8, as amended. For every call to \<^verbatim>\<open>open\<close> with a bus and device pair whose device
  path is shorter than 16 characters and cannot be opened, \<^verbatim>\<open>open\<close> fails with the
  module's \<^verbatim>\<open>spi.error\<close> (the spec's \<^verbatim>\<open>OpenError\<close>) carrying the message
  \<^verbatim>\<open>can't open device:\<close> followed by the path, after the one system call
  \<^verbatim>\<open>open\<close>. The descriptor is -1 afterwards and the cached fields are untouched, so an
  unopened object is left unchanged.
\<close>

theorem open_missing_device:
  assumes "length (device_path bus device) < MAXPATH"
    and "sys_open e (device_path bus device) = Inl err"
  shows "SPI_open e self bus device =
           (Raises SpiError (Msg (''can't open device: '' @ device_path bus device)),
            self\<lparr>fd := - 1\<rparr>, [Sys_open (device_path bus device)])
       \<and> (fd self = - 1 \<longrightarrow> self\<lparr>fd := - 1\<rparr> = self)"
  using assms by (auto simp: SPI_open_def Let_def)

text \<open>Bus 1, device 2 on the loopback machine, which has only \<^verbatim>\<open>/dev/spidev0.0\<close>.\<close>

theorem open_missing_device_witness:
  "length (device_path 1 2) < MAXPATH
   \<and> sys_open loopback (device_path 1 2) = Inl 2
   \<and> SPI_open loopback SPI_new 1 2 =
       (Raises SpiError (Msg ''can't open device: /dev/spidev1.2''), SPI_new, [Sys_open ''/dev/spidev1.2''])"
proof -
  have p: "device_path 1 2 = ''/dev/spidev1.2''" by code_simp
  have h1: "length (device_path 1 2) < MAXPATH" by (simp add: p MAXPATH_def)
  have h2: "sys_open loopback (device_path 1 2) = Inl 2" by (simp add: p loopback_def)
  have r: "SPI_new\<lparr>fd := - 1\<rparr> = SPI_new" by (simp add: SPI_new_def)
  from open_missing_device [OF h1 h2, of SPI_new] h1 h2 show ?thesis by (simp add: p r)
qed

text \<open>
  C8 as stated covers every pair whose device path does not exist. For bus 1000 and
  device 1000 the path has 20 characters: the check of line 230 raises
  \<^verbatim>\<open>OverflowError\<close> and \<^verbatim>\<open>open\<close> is never called.
\<close>

theorem open_path_too_long_counterexample:
  "sys_open loopback (device_path 1000 1000) = Inl 2
   \<and> SPI_open loopback SPI_new 1000 1000 =
       (Raises PyExc_OverflowError (Msg ''Bus and/or device number is invalid.''), SPI_new, [])"
proof -
  have p: "device_path 1000 1000 = ''/dev/spidev1000.1000''" by code_simp
  show ?thesis by (simp add: SPI_open_def p MAXPATH_def loopback_def)
qed

subsection \<open>C9: a negative minimum response length\<close>

text \<open>
  C9. For every call to \<^verbatim>\<open>transfer\<close> with a negative \<open>minimumResponseLength\<close>, the
  call is the call with 0 (and the call without the argument): the same outcome and
  the same system calls. The transfer length is the length of \<open>txData\<close>, the padding
  loop leaves the buffer as it is, and a returned sequence has the length of \<open>txData\<close>.
\<close>

theorem negative_minimum_is_zero:
  assumes "sint r < 0"
  shows "SPI_transfer e self obj (Some r) = SPI_transfer e self obj (Some 0)
       \<and> SPI_transfer e self obj (Some r) = SPI_transfer e self obj None
       \<and> transfer_length_of (int (length obj)) (rx_length_of (Some r)) = int (length obj)
       \<and> pad_loop (transfer_length_of (int (length obj)) (rx_length_of (Some r)))
            (int (length obj)) buf = Returns buf
       \<and> (\<forall>res. fst (SPI_transfer e self obj (Some r)) = Returns res \<longrightarrow>
              length res = length obj)"
proof -
  have a: "transfer_length_of (int (length obj)) (rx_length_of (Some r)) = int (length obj)"
    using assms by (simp add: rx_length_of_def negative_rx_length)
  have b: "transfer_length_of (int (length obj)) (rx_length_of (Some 0)) = int (length obj)"
    and c: "transfer_length_of (int (length obj)) (rx_length_of None) = int (length obj)"
    by (simp_all add: rx_length_of_def negative_rx_length)
  have len: "length res = length obj"
    if "fst (SPI_transfer e self obj (Some r)) = Returns res" for res
    using transfer_returns_length [OF that] a by simp
  have pad: "pad_loop (transfer_length_of (int (length obj)) (rx_length_of (Some r)))
            (int (length obj)) buf = Returns buf"
    by (simp only: a pad_loop_none)
  from transfer_same_length [OF a b] transfer_same_length [OF a c] a pad len
  show ?thesis by blast
qed

text \<open>Two bytes with the minimum -4 on the loopback device: the two bytes come back.\<close>

theorem negative_minimum_is_zero_witness:
  "sint (- 4 :: c_int) < 0
   \<and> SPI_transfer loopback opened [7, 8] (Some (- 4)) = SPI_transfer loopback opened [7, 8] (Some 0)
   \<and> SPI_transfer loopback opened [7, 8] (Some (- 4)) = SPI_transfer loopback opened [7, 8] None
   \<and> transfer_length_of (int (length [7, 8 :: int])) (rx_length_of (Some (- 4)))
       = int (length [7, 8 :: int])
   \<and> fst (SPI_transfer loopback opened [7, 8] (Some (- 4))) = Returns [7, 8]"
proof -
  have h: "sint (- 4 :: c_int) < 0" by simp
  have v: "fst (SPI_transfer loopback opened [7, 8] (Some (- 4))) = Returns [7, 8]"
    by code_simp
  from negative_minimum_is_zero [OF h, of loopback opened "[7, 8]"] h v
  show ?thesis by blast
qed

subsection \<open>C10: when the accesses to the two arrays are in bounds\<close>

text \<open>
  C10, as amended. For every call to \<^verbatim>\<open>transfer\<close> with
  max(len(txData), minimumResponseLength) at most 256, every store into \<^verbatim>\<open>tx_buf\<close>
  and every read of \<^verbatim>\<open>rx_buf\<close> is in bounds. For every call whose \<open>txData\<close> is a
  sequence of valid bytes the converse holds too: the accesses are all in bounds (and
  the call returns) if and only if that maximum is at most 256. Bounding the length of
  \<open>txData\<close> alone is not enough: with at most 256 bytes and a
  \<open>minimumResponseLength\<close> above 256 the call leaves \<^verbatim>\<open>tx_buf\<close> in the padding loop,
  and the loop that builds the result, run to that length, leaves \<^verbatim>\<open>rx_buf\<close>.
\<close>

theorem transfer_in_bounds_iff:
  fixes bs :: "byte list"
  shows "(max (int (length obj)) (rx_length_of rx_arg) \<le> MAX_TRANSFER_LENGTH \<longrightarrow>
            fst (SPI_transfer e self obj rx_arg) \<noteq> BufferOverrun)
       \<and> (fst (SPI_transfer e self (map uint bs) rx_arg) = BufferOverrun)
           = (\<not> max (int (length bs)) (rx_length_of rx_arg) \<le> MAX_TRANSFER_LENGTH)
       \<and> (\<exists>res. fst (SPI_transfer e self (map uint bs) rx_arg) = Returns res)
           = (max (int (length bs)) (rx_length_of rx_arg) \<le> MAX_TRANSFER_LENGTH)
       \<and> (int (length bs) \<le> MAX_TRANSFER_LENGTH \<and> MAX_TRANSFER_LENGTH < rx_length_of rx_arg \<longrightarrow>
            fst (SPI_transfer e self (map uint bs) rx_arg) = BufferOverrun
          \<and> pad_loop (transfer_length_of (int (length bs)) (rx_length_of rx_arg))
               (int (length bs)) tx_buf = BufferOverrun
          \<and> rx_loop (transfer_length_of (int (length bs)) (rx_length_of rx_arg))
               0 rx_buf [] = BufferOverrun)"
proof -
  have general: "max (int (length obj)) (rx_length_of rx_arg) \<le> MAX_TRANSFER_LENGTH \<longrightarrow>
            fst (SPI_transfer e self obj rx_arg) \<noteq> BufferOverrun"
    using transfer_within [of obj rx_arg e self] by simp
  show ?thesis
  proof (cases "max (int (length bs)) (rx_length_of rx_arg) \<le> MAX_TRANSFER_LENGTH")
    case True
    then have len: "int (length bs) \<le> MAX_TRANSFER_LENGTH"
      and rx: "rx_length_of rx_arg \<le> MAX_TRANSFER_LENGTH" by simp_all
    from transfer_in_bounds [OF len rx refl refl, of e self]
    have "\<exists>res. fst (SPI_transfer e self (map uint bs) rx_arg) = Returns res" by simp
    with True rx general show ?thesis by auto
  next
    case False
    then have over: "MAX_TRANSFER_LENGTH < int (length bs) \<or> MAX_TRANSFER_LENGTH < rx_length_of rx_arg"
      by auto
    have t: "fst (SPI_transfer e self (map uint bs) rx_arg) = BufferOverrun"
      by (simp add: transfer_overrun [OF over])
    have loops: "pad_loop (transfer_length_of (int (length bs)) (rx_length_of rx_arg))
                 (int (length bs)) tx_buf = BufferOverrun
            \<and> rx_loop (transfer_length_of (int (length bs)) (rx_length_of rx_arg))
                 0 rx_buf [] = BufferOverrun"
      if "int (length bs) \<le> MAX_TRANSFER_LENGTH" "MAX_TRANSFER_LENGTH < rx_length_of rx_arg"
    proof -
      from that have m: "transfer_length_of (int (length bs)) (rx_length_of rx_arg) = rx_length_of rx_arg"
        by (simp add: transfer_length_of_def)
      from that have lt: "int (length bs) < rx_length_of rx_arg" by simp
      from that(2) have pos: "0 < rx_length_of rx_arg" by (simp add: MAX_TRANSFER_LENGTH_def)
      show ?thesis
        unfolding m using pad_loop_overrun [OF that(2) lt] rx_loop_overrun [OF that(2) pos] by simp
    qed
    from False t loops general show ?thesis by simp
  qed
qed

text \<open>
  Two bytes with the minimum 300 (out of bounds) and with the minimum 256 (in bounds),
  and the sequence \<open>[1, 700]\<close> with the minimum 256.
\<close>

theorem transfer_in_bounds_iff_witness:
  "int (length [1, 2 :: byte]) \<le> MAX_TRANSFER_LENGTH
   \<and> MAX_TRANSFER_LENGTH < rx_length_of (Some 300)
   \<and> fst (SPI_transfer loopback opened (map uint [1, 2 :: byte]) (Some 300)) = BufferOverrun
   \<and> pad_loop (transfer_length_of (int (length [1, 2 :: byte])) (rx_length_of (Some 300)))
               (int (length [1, 2 :: byte])) (stack_tx loopback) = BufferOverrun
   \<and> rx_loop (transfer_length_of (int (length [1, 2 :: byte])) (rx_length_of (Some 300)))
               0 (stack_rx loopback) [] = BufferOverrun
   \<and> max (int (length [1, 2 :: byte])) (rx_length_of (Some 256)) \<le> MAX_TRANSFER_LENGTH
   \<and> (\<exists>res. fst (SPI_transfer loopback opened (map uint [1, 2 :: byte]) (Some 256)) = Returns res)
   \<and> max (int (length [1, 700 :: int])) (rx_length_of (Some 256)) \<le> MAX_TRANSFER_LENGTH
   \<and> fst (SPI_transfer loopback opened [1, 700] (Some 256)) \<noteq> BufferOverrun"
proof -
  have h1: "int (length [1, 2 :: byte]) \<le> MAX_TRANSFER_LENGTH"
    by (simp add: MAX_TRANSFER_LENGTH_def)
  have h2: "MAX_TRANSFER_LENGTH < rx_length_of (Some 300)"
    by (simp add: MAX_TRANSFER_LENGTH_def rx_length_of_def)
  have h3: "max (int (length [1, 2 :: byte])) (rx_length_of (Some 256)) \<le> MAX_TRANSFER_LENGTH"
    by (simp add: MAX_TRANSFER_LENGTH_def rx_length_of_def)
  have h4: "max (int (length [1, 700 :: int])) (rx_length_of (Some 256)) \<le> MAX_TRANSFER_LENGTH"
    by (simp add: MAX_TRANSFER_LENGTH_def rx_length_of_def)
  from transfer_in_bounds_iff [of "[1, 700]" "Some 300" loopback opened "[1, 2]"
      "stack_tx loopback" "stack_rx loopback"]
    transfer_in_bounds_iff [of "[1, 700]" "Some 256" loopback opened "[1, 2]"] h1 h2 h3 h4
  show ?thesis by blast
qed

text \<open>
  C10 as stated is an equivalence for every call. The call with \<open>[256]\<close> and the
  minimum 1000 is rejected at the first item, before any store: every access is in
  bounds although the maximum is 1000.
\<close>

theorem transfer_bounds_counterexample:
  "SPI_transfer loopback opened [256] (Some 1000) =
     (Raises PyExc_AttributeError (Msg ''Transmit data should be valid 8-bit data''), [])
   \<and> \<not> max (int (length [256 :: int])) (rx_length_of (Some 1000)) \<le> MAX_TRANSFER_LENGTH"
  using transfer_bad_item [of 0 "[256]" loopback opened "Some 1000"]
  by (simp add: MAX_TRANSFER_LENGTH_def rx_length_of_def)

end
